theory Spec2Isabelle
  imports Complex_Main
begin

section \<open>Numbers\<close>

text \<open>
  The program is JavaScript (\<^verbatim>\<open>build/main.js\<close>). Its numbers are modelled as real
  numbers: every theorem below is about finite numbers computed without rounding. The
  values NaN and Infinity are outside the model, so the operations that would produce them
  (division by zero, the remainder by zero) are only used under hypotheses that exclude them.
  Integer-valued numbers (the frame timer, array indices) are \<open>int\<close>.
\<close>

definition Math_floor :: "real \<Rightarrow> int" where
  "Math_floor v = \<lfloor>v\<rfloor>"

definition Math_max :: "real \<Rightarrow> real \<Rightarrow> real" where
  "Math_max a b = (if a < b then b else a)"

text \<open>
  The operator \<^verbatim>\<open>%\<close> is the remainder of the division truncated toward zero: the
  result has the sign of the dividend. \<open>js_rem\<close> is the operator on numbers,
  \<open>js_rem_int\<close> the same on integer-valued operands.
\<close>

definition trunc :: "real \<Rightarrow> int" where
  "trunc v = (if 0 \<le> v then \<lfloor>v\<rfloor> else \<lceil>v\<rceil>)"

definition js_rem :: "real \<Rightarrow> real \<Rightarrow> real" where
  "js_rem a b = a - b * of_int (trunc (a / b))"

definition js_rem_int :: "int \<Rightarrow> int \<Rightarrow> int" where
  "js_rem_int a b = (if 0 \<le> a then a mod \<bar>b\<bar> else - ((- a) mod \<bar>b\<bar>))"

section \<open>Matrix\<close>

text \<open>
  \<^verbatim>\<open>class Matrix { constructor(values) { this.values = values; } ... }\<close>
  A Matrix object holds one array; the methods that the source writes as mutations of
  \<^verbatim>\<open>this\<close> followed by \<^verbatim>\<open>return this\<close> take the object and return it updated.
\<close>

record Matrix =
  "values" :: "real list"

definition copy :: "Matrix \<Rightarrow> Matrix" where
  "copy this = \<lparr>values = values this\<rparr>"

definition multiply :: "Matrix \<Rightarrow> Matrix \<Rightarrow> Matrix" where
  "multiply this mat =
    (let a00 = values this ! (0 * 3 + 0);
         a01 = values this ! (0 * 3 + 1);
         a02 = values this ! (0 * 3 + 2);
         a10 = values this ! (1 * 3 + 0);
         a11 = values this ! (1 * 3 + 1);
         a12 = values this ! (1 * 3 + 2);
         a20 = values this ! (2 * 3 + 0);
         a21 = values this ! (2 * 3 + 1);
         a22 = values this ! (2 * 3 + 2);
         b00 = values mat ! (0 * 3 + 0);
         b01 = values mat ! (0 * 3 + 1);
         b02 = values mat ! (0 * 3 + 2);
         b10 = values mat ! (1 * 3 + 0);
         b11 = values mat ! (1 * 3 + 1);
         b12 = values mat ! (1 * 3 + 2);
         b20 = values mat ! (2 * 3 + 0);
         b21 = values mat ! (2 * 3 + 1);
         b22 = values mat ! (2 * 3 + 2)
     in this\<lparr>values :=
          [b00 * a00 + b01 * a10 + b02 * a20,
           b00 * a01 + b01 * a11 + b02 * a21,
           b00 * a02 + b01 * a12 + b02 * a22,
           b10 * a00 + b11 * a10 + b12 * a20,
           b10 * a01 + b11 * a11 + b12 * a21,
           b10 * a02 + b11 * a12 + b12 * a22,
           b20 * a00 + b21 * a10 + b22 * a20,
           b20 * a01 + b21 * a11 + b22 * a21,
           b20 * a02 + b21 * a12 + b22 * a22]\<rparr>)"

definition translate :: "Matrix \<Rightarrow> real \<Rightarrow> real \<Rightarrow> Matrix" where
  "translate this tx ty =
     multiply this \<lparr>values = [1, 0, 0,
                              0, 1, 0,
                              tx, ty, 1]\<rparr>"

definition rotate_mat :: "Matrix \<Rightarrow> real \<Rightarrow> Matrix" where
  "rotate_mat this radians =
    (let c = cos radians;
         s = sin radians
     in multiply this \<lparr>values = [c, - s, 0,
                                 s, c, 0,
                                 0, 0, 1]\<rparr>)"

definition scale :: "Matrix \<Rightarrow> real \<Rightarrow> real \<Rightarrow> Matrix" where
  "scale this sx sy =
     multiply this \<lparr>values = [sx, 0, 0,
                              0, sy, 0,
                              0, 0, 1]\<rparr>"

definition Matrix_projection :: "real \<Rightarrow> real \<Rightarrow> Matrix" where
  "Matrix_projection viewWidth viewHeight =
     \<lparr>values = [2 / viewWidth, 0, 0,
                0, - 2 / viewHeight, 0,
                - 1, 1, 1]\<rparr>"

definition Matrix_identity :: "real list" where
  "Matrix_identity = [1, 0, 0,
                      0, 1, 0,
                      0, 0, 1]"

subsection \<open>Reading the array\<close>

text \<open>
  The product of two 3\<times>3 matrices given as 9-coefficient arrays read row by row
  (entry \<open>(i, j)\<close> at index \<open>3 * i + j\<close>), written from the textbook definition and
  not from the code: entry \<open>(i, j)\<close> of \<open>P \<cdot> Q\<close> is \<open>\<Sum>k<3. P(i, k) * Q(k, j)\<close>.
\<close>

definition row_major_entry :: "real list \<Rightarrow> nat \<Rightarrow> nat \<Rightarrow> real" where
  "row_major_entry m i j = m ! (3 * i + j)"

definition row_major_product :: "real list \<Rightarrow> real list \<Rightarrow> real list" where
  "row_major_product P Q =
     concat (map (\<lambda>i. map (\<lambda>j. \<Sum>k<3. row_major_entry P i k * row_major_entry Q k j) [0..<3])
       [0..<3])"

text \<open>
  The vertex shaders of \<^verbatim>\<open>Shader.init\<close> compute
  \<^verbatim>\<open>gl_Position = vec4((u_positionMatrix*vec3(a_position,1)).xy,0,1)\<close>, and the
  matrix is uploaded with \<^verbatim>\<open>gl.uniformMatrix3fv(location, false, values)\<close>: without
  transposition WebGL takes the array column by column, so the columns of
  \<^verbatim>\<open>u_positionMatrix\<close> are \<open>values[0..2]\<close>, \<open>values[3..5]\<close> and \<open>values[6..8]\<close>.
\<close>

definition mat3_times_vec3 :: "real list \<Rightarrow> real \<times> real \<times> real \<Rightarrow> real \<times> real \<times> real" where
  "mat3_times_vec3 m v =
    (case v of (vx, vy, vz) \<Rightarrow>
      (m ! 0 * vx + m ! 3 * vy + m ! 6 * vz,
       m ! 1 * vx + m ! 4 * vy + m ! 7 * vz,
       m ! 2 * vx + m ! 5 * vy + m ! 8 * vz))"

definition gl_Position_xy :: "real list \<Rightarrow> real \<times> real \<Rightarrow> real \<times> real" where
  "gl_Position_xy u_positionMatrix a_position =
    (case mat3_times_vec3 u_positionMatrix (fst a_position, snd a_position, 1) of
      (px, py, pz) \<Rightarrow> (px, py))"

text \<open>The shape every exposed operation keeps: entries 2, 5 and 8 are 0, 0 and 1.\<close>

definition affine_shape :: "Matrix \<Rightarrow> bool" where
  "affine_shape m =
     (length (values m) = 9 \<and> values m ! 2 = 0 \<and> values m ! 5 = 0 \<and> values m ! 8 = 1)"

text \<open>
  The matrices a program can build: a Matrix over the identity array, a projection, and
  whatever translate, rotate, scale and multiply (by a matrix built the same way) make of
  them. A projection is taken for a view of non-zero size (the division is exact there).
\<close>

inductive reachable :: "Matrix \<Rightarrow> bool" where
  reach_identity: "reachable \<lparr>values = Matrix_identity\<rparr>"
| reach_projection: "w \<noteq> 0 \<Longrightarrow> h \<noteq> 0 \<Longrightarrow> reachable (Matrix_projection w h)"
| reach_copy: "reachable m \<Longrightarrow> reachable (copy m)"
| reach_translate: "reachable m \<Longrightarrow> reachable (translate m tx ty)"
| reach_rotate: "reachable m \<Longrightarrow> reachable (rotate_mat m radians)"
| reach_scale: "reachable m \<Longrightarrow> reachable (scale m sx sy)"
| reach_multiply: "reachable m \<Longrightarrow> reachable m' \<Longrightarrow> reachable (multiply m m')"

section \<open>Values passed to the draw functions\<close>

text \<open>
  \<^verbatim>\<open>class Color { constructor(red, green, blue, alpha) { ...;
  this.alpha = (alpha === undefined) ? 1 : alpha; } }\<close>
  The colour arguments of a draw function are a Color instance, a number, or missing
  (\<^verbatim>\<open>undefined\<close>).
\<close>

record Color =
  red :: real
  green :: real
  blue :: real
  alpha :: real

datatype jsval = Undefined | Number real | ColorObject Color

definition Color_new :: "real \<Rightarrow> real \<Rightarrow> real \<Rightarrow> real option \<Rightarrow> Color" where
  "Color_new r g b a =
     \<lparr>red = r, green = g, blue = b, alpha = (case a of None \<Rightarrow> 1 | Some v \<Rightarrow> v)\<rparr>"

fun instanceof_Color :: "jsval \<Rightarrow> bool" where
  "instanceof_Color (ColorObject c) = True"
| "instanceof_Color v = False"

text \<open>Truthiness, as \<^verbatim>\<open>rcol && g && b\<close> tests it.\<close>

fun truthy :: "jsval \<Rightarrow> bool" where
  "truthy Undefined = False"
| "truthy (Number v) = (v \<noteq> 0)"
| "truthy (ColorObject c) = True"

text \<open>What the source throws.\<close>

datatype shader_failure =
    CreateShaderFailed
  | CompileFailed string
  | CreateProgramFailed
  | LinkFailed string
  | PositionAttributeNotFound string
  | PositionUniformNotFound string
  | BlendUniformNotFound string
  | TextureAttributeNotFound "string option"
  | TextureUniformNotFound "string option"
  | CreateBufferFailed

datatype error =
    ShaderError shader_failure
  | DrawError jsval jsval jsval jsval
  | TypeError

section \<open>The sprite data\<close>

text \<open>
  A sprite as the atlas compiler writes it (\<^verbatim>\<open>var spr = {...}\<close>): the fields
  \<^verbatim>\<open>x\<close>, \<^verbatim>\<open>y\<close> and \<^verbatim>\<open>t\<close> of an image are \<open>img_x\<close>, \<open>img_y\<close> and \<open>img_t\<close> here.
\<close>

record sprite_image =
  img_x :: real
  img_y :: real
  img_t :: "real list"

record sprite =
  width :: real
  height :: real
  originX :: real
  originY :: real
  images :: "sprite_image list"

definition spr_bowser :: sprite where
  "spr_bowser = \<lparr>width = 28, height = 42, originX = 0, originY = 0,
     images = [\<lparr>img_x = 0, img_y = 0, img_t = [7 / 128, 0, 0, 0, 21 / 256, 0, 0, 0, 1]\<rparr>]\<rparr>"

definition spr_mario :: sprite where
  "spr_mario = \<lparr>width = 16, height = 32, originX = 8, originY = 0,
     images =
      [\<lparr>img_x = 32, img_y = 0, img_t = [1 / 32, 0, 0, 0, 1 / 16, 0, 1 / 16, 0, 1]\<rparr>,
       \<lparr>img_x = 64, img_y = 0, img_t = [1 / 32, 0, 0, 0, 1 / 16, 0, 1 / 8, 0, 1]\<rparr>,
       \<lparr>img_x = 96, img_y = 0, img_t = [1 / 32, 0, 0, 0, 1 / 16, 0, 3 / 16, 0, 1]\<rparr>,
       \<lparr>img_x = 128, img_y = 0, img_t = [1 / 32, 0, 0, 0, 1 / 16, 0, 1 / 4, 0, 1]\<rparr>]\<rparr>"

text \<open>
  \<^verbatim>\<open>sprite.images[image]\<close> for an integer-valued \<^verbatim>\<open>image\<close>: the element, or
  \<^verbatim>\<open>undefined\<close> (\<open>None\<close>) when the index is negative or past the end.
\<close>

definition images_at :: "sprite \<Rightarrow> int \<Rightarrow> sprite_image option" where
  "images_at sprite i =
     (if 0 \<le> i \<and> i < int (length (images sprite)) then Some (images sprite ! nat i) else None)"

section \<open>The Shader class and its static state\<close>

text \<open>
  A Shader instance holds the handles the constructor resolved. The static properties of
  the class (\<^verbatim>\<open>Shader.imageShader\<close>, \<^verbatim>\<open>Shader.internalTimer\<close>, ...) are one record;
  the two instances it holds are referred to by \<open>shader_ref\<close>. The calls issued to the
  WebGL context \<^verbatim>\<open>Shader.gl\<close> and to the 2D context \<^verbatim>\<open>Shader.ctx\<close> are appended
  to \<open>calls\<close> in the order the source issues them.
\<close>

record Shader =
  program :: nat
  positionAttribute :: int
  positionMatrix :: nat
  blendUniform :: nat
  textureAttribute :: "int option"
  textureMatrix :: "nat option"
  buffer :: nat

datatype shader_ref = ImageShader | PrimitiveShader

datatype GLenum = POINTS | LINES | LINE_LOOP | LINE_STRIP | TRIANGLES | TRIANGLE_STRIP | TRIANGLE_FAN

datatype gl_call =
    gl_bindBuffer nat
  | gl_bufferData "real list"
  | gl_vertexAttribPointer int
  | gl_useProgram nat
  | gl_uniform4f nat jsval jsval jsval jsval
  | gl_uniformMatrix3fv "nat option" "real list"
  | gl_drawArrays GLenum nat real
  | gl_bindFramebuffer "nat option"
  | gl_viewport real real real real
  | gl_clearColor real real real real
  | gl_clear
  | gl_bindTexture "nat option"
  | gl_texImage2D real real
  | ctx_clearRect real real real real
  | ctx_save
  | ctx_imageSmoothingEnabled bool
  | ctx_setTransform real real real real real real
  | ctx_scale real real

record Shader_static =
  imageShader :: Shader
  primitiveShader :: Shader
  currentProgram :: "shader_ref option"
  positionOrder :: "real list"
  triangleOrder :: "real list"
  internalTimer :: int
  projection :: Matrix
  viewWidth :: real
  viewHeight :: real
  displayWidth :: real
  displayHeight :: real
  backgroundColor :: "real \<times> real \<times> real"
  responsive :: string
  maintainAspectRatio :: bool
  scalePerfectly :: bool
  contextImageSmoothing :: bool
  atlasTexture :: "nat option"
  gameTexture :: nat
  frameBuffer :: nat
  cv1_size :: "real \<times> real"
  cv2_size :: "real \<times> real"
  calls :: "gl_call list"

definition emit :: "gl_call list \<Rightarrow> Shader_static \<Rightarrow> Shader_static" where
  "emit cs s = s\<lparr>calls := calls s @ cs\<rparr>"

definition shader_of :: "shader_ref \<Rightarrow> Shader_static \<Rightarrow> Shader" where
  "shader_of r s = (case r of ImageShader \<Rightarrow> imageShader s | PrimitiveShader \<Rightarrow> primitiveShader s)"

text \<open>\<^verbatim>\<open>use(positions = Shader.positionOrder)\<close>; the caller passes the default explicitly.\<close>

definition use :: "shader_ref \<Rightarrow> real list \<Rightarrow> Shader_static \<Rightarrow> Shader_static" where
  "use this positions s =
    (let s1 = emit [gl_bindBuffer (buffer (shader_of this s)),
                    gl_bufferData positions,
                    gl_vertexAttribPointer (positionAttribute (shader_of this s))] s
     in if currentProgram s1 \<noteq> Some this
        then emit [gl_useProgram (program (shader_of this s1))] (s1\<lparr>currentProgram := Some this\<rparr>)
        else s1)"

text \<open>\<^verbatim>\<open>a || b\<close> on an optional number: the second when the first is missing or 0.\<close>

definition or_else :: "real option \<Rightarrow> real \<Rightarrow> real" where
  "or_else a b = (case a of None \<Rightarrow> b | Some v \<Rightarrow> if v = 0 then b else v)"

definition setProjection ::
  "real \<Rightarrow> real \<Rightarrow> real option \<Rightarrow> real option \<Rightarrow> Shader_static \<Rightarrow> Shader_static" where
  "setProjection vw vh dw dh s =
    (let s1 = s\<lparr>viewWidth := vw, viewHeight := vh,
                displayWidth := or_else dw vw, displayHeight := or_else dh vh\<rparr>;
         s2 = s1\<lparr>projection := Matrix_projection (viewWidth s1) (viewHeight s1)\<rparr>;
         s3 = use PrimitiveShader (positionOrder s2) s2;
         s4 = emit [gl_uniformMatrix3fv (Some (positionMatrix (primitiveShader s3)))
                      (values (projection s3))] s3;
         s5 = s4\<lparr>cv1_size := (or_else dw vw, or_else dh vh)\<rparr>;
         s6 = s5\<lparr>cv2_size := cv1_size s5\<rparr>
     in emit [gl_bindTexture (Some (gameTexture s6)),
              gl_texImage2D (viewWidth s6) (viewHeight s6),
              ctx_imageSmoothingEnabled (contextImageSmoothing s6),
              ctx_setTransform 1 0 0 1 0 0,
              ctx_scale (displayWidth s6 / viewWidth s6) (displayHeight s6 / viewHeight s6)] s6)"

definition beginRender :: "Shader_static \<Rightarrow> Shader_static" where
  "beginRender s =
    (let s1 = emit [gl_bindFramebuffer (Some (frameBuffer s)),
                    gl_viewport 0 0 (viewWidth s) (viewHeight s),
                    (case backgroundColor s of (r, g, b) \<Rightarrow> gl_clearColor r g b 1),
                    gl_clear,
                    ctx_clearRect 0 0 (viewWidth s) (viewHeight s),
                    ctx_save,
                    gl_bindTexture (atlasTexture s)] s;
         s2 = use ImageShader (positionOrder s1) s1;
         s3 = emit [gl_uniform4f (blendUniform (imageShader s2))
                      (Number 1) (Number 1) (Number 1) (Number 1)] s2;
         s4 = s3\<lparr>internalTimer := internalTimer s3 + 1\<rparr>
     in if internalTimer s4 > 4096 then s4\<lparr>internalTimer := 0\<rparr> else s4)"

section \<open>The draw functions\<close>

definition preparePrimitive ::
  "real list \<Rightarrow> jsval \<Rightarrow> jsval \<Rightarrow> jsval \<Rightarrow> jsval \<Rightarrow> Shader_static \<Rightarrow> (error + unit) \<times> Shader_static"
  where
  "preparePrimitive positions rcol g b a s =
    (let s1 = use PrimitiveShader positions s
     in case rcol of
          ColorObject c \<Rightarrow>
            (Inr (), emit [gl_uniform4f (blendUniform (primitiveShader s1))
                            (Number (red c)) (Number (green c)) (Number (blue c))
                            (Number (alpha c))] s1)
        | _ \<Rightarrow>
            if g \<noteq> Undefined \<and> b \<noteq> Undefined
            then (Inr (), emit [gl_uniform4f (blendUniform (primitiveShader s1))
                                  rcol g b (if a = Undefined then Number 1 else a)] s1)
            else (Inl (DrawError rcol g b a), s1))"

definition drawLine ::
  "real \<Rightarrow> real \<Rightarrow> real \<Rightarrow> real \<Rightarrow> jsval \<Rightarrow> jsval \<Rightarrow> jsval \<Rightarrow> jsval \<Rightarrow> Shader_static
     \<Rightarrow> (error + unit) \<times> Shader_static" where
  "drawLine x y x2 y2 rcol g b a s =
    (let positions = [x, y, x2, y2]
     in case preparePrimitive positions rcol g b a s of
          (Inl e, s1) \<Rightarrow> (Inl e, s1)
        | (Inr u, s1) \<Rightarrow> (Inr (), emit [gl_drawArrays LINES 0 2] s1))"

definition drawRect ::
  "real \<Rightarrow> real \<Rightarrow> real \<Rightarrow> real \<Rightarrow> jsval \<Rightarrow> jsval \<Rightarrow> jsval \<Rightarrow> jsval \<Rightarrow> Shader_static
     \<Rightarrow> (error + unit) \<times> Shader_static" where
  "drawRect x y x2 y2 rcol g b a s =
    (let positions = [x, y2, x, y, x2, y,
                      x2, y, x2, y2, x, y2]
     in case preparePrimitive positions rcol g b a s of
          (Inl e, s1) \<Rightarrow> (Inl e, s1)
        | (Inr u, s1) \<Rightarrow> (Inr (), emit [gl_drawArrays TRIANGLES 0 6] s1))"

text \<open>
  The loop \<^verbatim>\<open>for (let i = 0; i <= segments; i++)\<close> of drawCircle, for a whole number of
  segments: \<open>n\<close> counts the iterations left, \<open>segments + 1\<close> at the start.
\<close>

fun circle_loop :: "real \<Rightarrow> real \<Rightarrow> real \<Rightarrow> nat \<Rightarrow> nat \<Rightarrow> real \<Rightarrow> real list \<Rightarrow> real list" where
  "circle_loop x y radius segments 0 theta positions = positions"
| "circle_loop x y radius segments (Suc n) theta positions =
     circle_loop x y radius segments n (theta + pi * 2 / real segments)
       (positions @ [x + (radius * cos theta), y + (radius * sin theta)])"

definition drawCircle ::
  "real \<Rightarrow> real \<Rightarrow> real \<Rightarrow> nat \<Rightarrow> jsval \<Rightarrow> jsval \<Rightarrow> jsval \<Rightarrow> jsval \<Rightarrow> Shader_static
     \<Rightarrow> (error + unit) \<times> Shader_static" where
  "drawCircle x y radius segments rcol g b a s =
    (let positions = circle_loop x y radius segments (segments + 1) 0 [x, y]
     in case preparePrimitive positions rcol g b a s of
          (Inl e, s1) \<Rightarrow> (Inl e, s1)
        | (Inr u, s1) \<Rightarrow> (Inr (), emit [gl_drawArrays TRIANGLE_FAN 0 (real segments + 2)] s1))"

definition drawPrimitive ::
  "GLenum \<Rightarrow> real list \<Rightarrow> jsval \<Rightarrow> jsval \<Rightarrow> jsval \<Rightarrow> jsval \<Rightarrow> Shader_static
     \<Rightarrow> (error + unit) \<times> Shader_static" where
  "drawPrimitive mode positions rcol g b a s =
    (case preparePrimitive positions rcol g b a s of
       (Inl e, s1) \<Rightarrow> (Inl e, s1)
     | (Inr u, s1) \<Rightarrow> (Inr (), emit [gl_drawArrays mode 0 (real (length positions) / 2)] s1))"

text \<open>
  The first statements of drawSprite (and of drawSpriteCtx), under the comment
  \<^verbatim>\<open>// Limit our image\<close>:
  \<^verbatim>\<open>image = Math.floor(image); if (!sprite.images[image]) { image %= sprite.images.length; }\<close>
  (the parameter \<^verbatim>\<open>image\<close> is \<open>img\<close> here).
\<close>

definition limit_image :: "sprite \<Rightarrow> real \<Rightarrow> int" where
  "limit_image sprite img =
    (let image1 = Math_floor img
     in if images_at sprite image1 = None
        then js_rem_int image1 (int (length (images sprite)))
        else image1)"

definition drawSprite ::
  "sprite \<Rightarrow> real \<Rightarrow> real \<Rightarrow> real \<Rightarrow> (Matrix \<Rightarrow> Matrix) option \<Rightarrow> jsval \<Rightarrow> jsval \<Rightarrow> jsval \<Rightarrow> jsval
     \<Rightarrow> Shader_static \<Rightarrow> (error + unit) \<times> Shader_static" where
  "drawSprite sprite img x y transformFn rcol g b a s =
    (let s1 = use ImageShader (positionOrder s) s;
         image1 = limit_image sprite img;
         mat = scale (translate (copy (projection s1)) x y) (width sprite) (height sprite);
         mat1 = (case transformFn of Some f \<Rightarrow> f mat | None \<Rightarrow> mat);
         mat2 = (if originX sprite \<noteq> 0 \<or> originY sprite \<noteq> 0
                 then translate mat1 (- originX sprite / width sprite)
                        (- originY sprite / height sprite)
                 else mat1);
         s2 = emit [gl_uniformMatrix3fv (Some (positionMatrix (imageShader s1))) (values mat2)] s1
     in case images_at sprite image1 of
          None \<Rightarrow> (Inl TypeError, s2)
        | Some i \<Rightarrow>
           (let s3 = emit [gl_uniformMatrix3fv (textureMatrix (imageShader s2)) (img_t i)] s2;
                s4 = (case rcol of
                        ColorObject c \<Rightarrow>
                          emit [gl_uniform4f (blendUniform (imageShader s3))
                                  (Number (red c)) (Number (green c)) (Number (blue c))
                                  (Number (alpha c))] s3
                      | _ \<Rightarrow>
                          if rcol \<noteq> Undefined \<and> g \<noteq> Undefined \<and> b \<noteq> Undefined
                          then emit [gl_uniform4f (blendUniform (imageShader s3))
                                       rcol g b (if a = Undefined then Number 1 else a)] s3
                          else emit [gl_uniform4f (blendUniform (imageShader s3))
                                       (Number 1) (Number 1) (Number 1) (Number 1)] s3)
            in (Inr (), emit [gl_drawArrays TRIANGLES 0 6] s4)))"

text \<open>
  Every branch of drawSpriteSpeed passes the image
  \<^verbatim>\<open>(Shader.internalTimer * speed) % sprite.images.length\<close>; the branches differ in the
  colour arguments they pass on (\<^verbatim>\<open>transformFn || null\<close> and a missing
  \<^verbatim>\<open>transformFn\<close> are both \<open>None\<close>).
\<close>

definition drawSpriteSpeed ::
  "sprite \<Rightarrow> real \<Rightarrow> real \<Rightarrow> real \<Rightarrow> (Matrix \<Rightarrow> Matrix) option \<Rightarrow> jsval \<Rightarrow> jsval \<Rightarrow> jsval \<Rightarrow> jsval
     \<Rightarrow> Shader_static \<Rightarrow> (error + unit) \<times> Shader_static" where
  "drawSpriteSpeed sprite speed x y transformFn rcol g b a s =
    (if instanceof_Color rcol
     then drawSprite sprite
            (js_rem (real_of_int (internalTimer s) * speed) (real (length (images sprite))))
            x y transformFn rcol Undefined Undefined Undefined s
     else if truthy rcol \<and> truthy g \<and> truthy b
     then drawSprite sprite
            (js_rem (real_of_int (internalTimer s) * speed) (real (length (images sprite))))
            x y transformFn rcol g b a s
     else if transformFn \<noteq> None
     then drawSprite sprite
            (js_rem (real_of_int (internalTimer s) * speed) (real (length (images sprite))))
            x y transformFn Undefined Undefined Undefined Undefined s
     else drawSprite sprite
            (js_rem (real_of_int (internalTimer s) * speed) (real (length (images sprite))))
            x y None Undefined Undefined Undefined Undefined s)"

section \<open>Responsive resizing\<close>

record window =
  innerWidth :: real
  innerHeight :: real

definition resizeCanvas :: "window \<Rightarrow> Shader_static \<Rightarrow> Shader_static" where
  "resizeCanvas win s =
    (if responsive s = ''stretch'' then
       (if maintainAspectRatio s then
          (let ratio = viewWidth s / viewHeight s
           in if innerWidth win > innerHeight win
              then (let newHeight = innerHeight win;
                        newWidth = newHeight * ratio
                    in setProjection newWidth newHeight None None s)
              else (let newWidth = innerWidth win;
                        newHeight = newWidth / ratio
                    in setProjection newWidth newHeight None None s))
        else setProjection (innerWidth win) (innerHeight win) None None s)
     else if responsive s = ''scale'' then
       (if maintainAspectRatio s then
          (let scale0 = (if innerHeight win > innerWidth win
                         then innerWidth win / viewWidth s
                         else innerHeight win / viewHeight s);
               scale1 = Math_max scale0 1;
               scale2 = (if scalePerfectly s then real_of_int (Math_floor scale1) else scale1)
           in setProjection (viewWidth s) (viewHeight s)
                (Some (viewWidth s * scale2)) (Some (viewHeight s * scale2)) s)
        else setProjection (viewWidth s) (viewHeight s)
               (Some (innerWidth win)) (Some (innerHeight win)) s)
     else s)"

section \<open>Constructing a Shader\<close>

text \<open>
  The WebGL context is the environment of the constructor: what it answers is a parameter.
  \<open>compile\<close> stands for \<^verbatim>\<open>createShader\<close>, \<^verbatim>\<open>shaderSource\<close>, \<^verbatim>\<open>compileShader\<close>
  and the status and log queries on the result; \<open>link\<close> for \<^verbatim>\<open>createProgram\<close>,
  \<^verbatim>\<open>attachShader\<close>, \<^verbatim>\<open>linkProgram\<close> and the queries on the program.
  \<^verbatim>\<open>getAttribLocation\<close> answers \<open>-1\<close> and \<^verbatim>\<open>getUniformLocation\<close> answers
  \<^verbatim>\<open>null\<close> (\<open>None\<close>) for a name the linked program does not have.
\<close>

datatype shader_type = VERTEX_SHADER | FRAGMENT_SHADER

datatype compile_outcome = NoShaderObject | CompileError string | Compiled nat

datatype link_outcome = NoProgramObject | LinkError string | Linked nat

record WebGL =
  compile :: "shader_type \<Rightarrow> string \<Rightarrow> compile_outcome"
  link :: "nat \<Rightarrow> nat \<Rightarrow> link_outcome"
  getAttribLocation :: "nat \<Rightarrow> string \<Rightarrow> int"
  getUniformLocation :: "nat \<Rightarrow> string \<Rightarrow> nat option"
  createBuffer :: "nat option"

text \<open>
  The options of the constructor; the fields of \<^verbatim>\<open>opt.names\<close> carry the prefix
  \<open>name_\<close> (the Shader instance has fields of the same names).
\<close>

record shader_names =
  name_positionAttribute :: string
  name_positionUniform :: string
  name_blendUniform :: string
  name_textureAttribute :: "string option"
  name_textureUniform :: "string option"

record shader_options =
  vertexSource :: string
  fragmentSource :: string
  useTexture :: bool
  names :: shader_names

text \<open>\<^verbatim>\<open>name || ''\<close> on an optional string.\<close>

definition or_empty :: "string option \<Rightarrow> string" where
  "or_empty n = (case n of None \<Rightarrow> [] | Some v \<Rightarrow> v)"

definition Shader_createShader :: "WebGL \<Rightarrow> shader_type \<Rightarrow> string \<Rightarrow> error + nat" where
  "Shader_createShader gl type source =
    (case compile gl type source of
       NoShaderObject \<Rightarrow> Inl (ShaderError CreateShaderFailed)
     | CompileError err \<Rightarrow> Inl (ShaderError (CompileFailed err))
     | Compiled shader \<Rightarrow> Inr shader)"

text \<open>
  The end of the constructor, once every lookup has succeeded: the buffer is created and
  the instance is complete. (The buffer upload and the attribute pointers that follow are
  calls on the context that cannot fail and do not change the instance.)
\<close>

definition Shader_finish ::
  "WebGL \<Rightarrow> nat \<Rightarrow> int \<Rightarrow> nat \<Rightarrow> nat \<Rightarrow> int option \<Rightarrow> nat option \<Rightarrow> error + Shader" where
  "Shader_finish gl prog posAttr posMatrix blend texAttr texMatrix =
    (case createBuffer gl of
       None \<Rightarrow> Inl (ShaderError CreateBufferFailed)
     | Some buf \<Rightarrow>
         Inr \<lparr>program = prog, positionAttribute = posAttr, positionMatrix = posMatrix,
              blendUniform = blend, textureAttribute = texAttr, textureMatrix = texMatrix,
              buffer = buf\<rparr>)"

definition Shader_new :: "WebGL \<Rightarrow> shader_options \<Rightarrow> error + Shader" where
  "Shader_new gl opt =
    (case Shader_createShader gl VERTEX_SHADER (vertexSource opt) of
       Inl e \<Rightarrow> Inl e
     | Inr vertexShader \<Rightarrow>
    (case Shader_createShader gl FRAGMENT_SHADER (fragmentSource opt) of
       Inl e \<Rightarrow> Inl e
     | Inr fragmentShader \<Rightarrow>
    (case link gl vertexShader fragmentShader of
       NoProgramObject \<Rightarrow> Inl (ShaderError CreateProgramFailed)
     | LinkError err \<Rightarrow> Inl (ShaderError (LinkFailed err))
     | Linked prog \<Rightarrow>
        (if getAttribLocation gl prog (name_positionAttribute (names opt)) = - 1
         then Inl (ShaderError (PositionAttributeNotFound (name_positionAttribute (names opt))))
         else
        (case getUniformLocation gl prog (name_positionUniform (names opt)) of
           None \<Rightarrow> Inl (ShaderError (PositionUniformNotFound (name_positionUniform (names opt))))
         | Some posMatrix \<Rightarrow>
        (case getUniformLocation gl prog (name_blendUniform (names opt)) of
           None \<Rightarrow> Inl (ShaderError (BlendUniformNotFound (name_blendUniform (names opt))))
         | Some blend \<Rightarrow>
            (if useTexture opt
             then
               (if getAttribLocation gl prog (or_empty (name_textureAttribute (names opt))) = - 1
                then Inl (ShaderError (TextureAttributeNotFound (name_textureAttribute (names opt))))
                else
                 (case getUniformLocation gl prog (or_empty (name_textureUniform (names opt))) of
                    None \<Rightarrow>
                      Inl (ShaderError (TextureUniformNotFound (name_textureUniform (names opt))))
                  | Some texMatrix \<Rightarrow>
                      Shader_finish gl prog
                        (getAttribLocation gl prog (name_positionAttribute (names opt)))
                        posMatrix blend
                        (Some (getAttribLocation gl prog
                                 (or_empty (name_textureAttribute (names opt)))))
                        (Some texMatrix)))
             else Shader_finish gl prog
                    (getAttribLocation gl prog (name_positionAttribute (names opt)))
                    posMatrix blend None None)))))))"

section \<open>Notions the properties are stated with\<close>

text \<open>The calls that draw, and the draw calls a state has logged.\<close>

fun is_draw_call :: "gl_call \<Rightarrow> bool" where
  "is_draw_call (gl_drawArrays mode first n) = True"
| "is_draw_call c = False"

definition draw_calls :: "Shader_static \<Rightarrow> gl_call list" where
  "draw_calls s = filter is_draw_call (calls s)"

text \<open>
  Colour arguments a primitive draw cannot use: the first is not a Color instance and the
  green or the blue component is missing.
\<close>

definition unparseable_color :: "jsval \<Rightarrow> jsval \<Rightarrow> jsval \<Rightarrow> bool" where
  "unparseable_color rcol g b = (\<not> instanceof_Color rcol \<and> (g = Undefined \<or> b = Undefined))"

text \<open>
  A linked program that lacks a name the options require: the position attribute, the
  position-matrix uniform, the blend uniform and, for a shader that uses a texture, the
  texture attribute and the texture-matrix uniform.
\<close>

definition lacks_required_name :: "WebGL \<Rightarrow> nat \<Rightarrow> shader_options \<Rightarrow> bool" where
  "lacks_required_name gl prog opt =
    (getAttribLocation gl prog (name_positionAttribute (names opt)) = - 1
     \<or> getUniformLocation gl prog (name_positionUniform (names opt)) = None
     \<or> getUniformLocation gl prog (name_blendUniform (names opt)) = None
     \<or> (useTexture opt
          \<and> (getAttribLocation gl prog (or_empty (name_textureAttribute (names opt))) = - 1
              \<or> getUniformLocation gl prog (or_empty (name_textureUniform (names opt))) = None)))"

fun missing_name_failure :: "shader_failure \<Rightarrow> bool" where
  "missing_name_failure (PositionAttributeNotFound n) = True"
| "missing_name_failure (PositionUniformNotFound n) = True"
| "missing_name_failure (BlendUniformNotFound n) = True"
| "missing_name_failure (TextureAttributeNotFound n) = True"
| "missing_name_failure (TextureUniformNotFound n) = True"
| "missing_name_failure f = False"

text \<open>
  The scale factor as the specification words it: the smaller of the two ratios of the
  available space to the logical size, at least 1, floored when pixel-perfect.
\<close>

definition smaller_ratio_factor :: "real \<Rightarrow> real \<Rightarrow> real \<Rightarrow> real \<Rightarrow> bool \<Rightarrow> real" where
  "smaller_ratio_factor logicalW logicalH availW availH pixelPerfect =
    (let r = min (availW / logicalW) (availH / logicalH);
         m = max r 1
     in if pixelPerfect then real_of_int \<lfloor>m\<rfloor> else m)"

text \<open>The factor resizeCanvas computes under \<^verbatim>\<open>'scale'\<close> with the aspect ratio kept.\<close>

definition orientation_factor :: "real \<Rightarrow> real \<Rightarrow> real \<Rightarrow> real \<Rightarrow> bool \<Rightarrow> real" where
  "orientation_factor logicalW logicalH availW availH pixelPerfect =
    (let r = (if availH > availW then availW / logicalW else availH / logicalH);
         m = max r 1
     in if pixelPerfect then real_of_int \<lfloor>m\<rfloor> else m)"

text \<open>
  A state as the demo sets it up (\<^verbatim>\<open>initialize({responsive: 'scale',
  maintainAspectRatio: true, scalePerfectly: true, viewWidth: 400, viewHeight: 240,
  backgroundColor: {red: 0.1, green: 0.05, blue: 0.05}})\<close>), with the timer at 0 as
  \<^verbatim>\<open>Shader.init\<close> leaves it; the handles are arbitrary. It is the concrete input of the
  examples below.
\<close>

definition demo_state :: Shader_static where
  "demo_state =
    \<lparr>imageShader = \<lparr>program = 1, positionAttribute = 0, positionMatrix = 1, blendUniform = 2,
                     textureAttribute = Some 1, textureMatrix = Some 3, buffer = 1\<rparr>,
     primitiveShader = \<lparr>program = 2, positionAttribute = 0, positionMatrix = 4, blendUniform = 5,
                         textureAttribute = None, textureMatrix = None, buffer = 2\<rparr>,
     currentProgram = Some PrimitiveShader,
     positionOrder = [0, 0, 0, 1, 1, 1, 1, 1, 1, 0, 0, 0],
     triangleOrder = [0, 0, 1 / 2, 1 / 2],
     internalTimer = 0,
     projection = Matrix_projection 400 240,
     viewWidth = 400, viewHeight = 240, displayWidth = 400, displayHeight = 240,
     backgroundColor = (1 / 10, 1 / 20, 1 / 20),
     responsive = ''scale'', maintainAspectRatio = True, scalePerfectly = True,
     contextImageSmoothing = False,
     atlasTexture = Some 1, gameTexture = 2, frameBuffer = 1,
     cv1_size = (400, 240), cv2_size = (400, 240),
     calls = []\<rparr>"

text \<open>A context whose linked program has the names of the default primitive shader only.\<close>

definition demo_gl :: WebGL where
  "demo_gl =
    \<lparr>compile = (\<lambda>ty src. case ty of VERTEX_SHADER \<Rightarrow> Compiled 1 | FRAGMENT_SHADER \<Rightarrow> Compiled 2),
     link = (\<lambda>v f. Linked 3),
     getAttribLocation = (\<lambda>p n. if n = ''a_position'' then 0 else - 1),
     getUniformLocation = (\<lambda>p n. if n = ''u_positionMatrix'' then Some 1
                                   else if n = ''u_blend'' then Some 2 else None),
     createBuffer = Some 1\<rparr>"

definition demo_primitive_options :: shader_options where
  "demo_primitive_options =
    \<lparr>vertexSource = ''vertex'', fragmentSource = ''fragment'', useTexture = False,
     names = \<lparr>name_positionAttribute = ''a_position'', name_positionUniform = ''u_positionMatrix'',
              name_blendUniform = ''u_blend'', name_textureAttribute = Some ''a_texcoord'',
              name_textureUniform = None\<rparr>\<rparr>"

section \<open>Properties of Matrix\<close>

lemma values_multiply:
  "values (multiply A B) =
     [values B ! 0 * values A ! 0 + values B ! 1 * values A ! 3 + values B ! 2 * values A ! 6,
      values B ! 0 * values A ! 1 + values B ! 1 * values A ! 4 + values B ! 2 * values A ! 7,
      values B ! 0 * values A ! 2 + values B ! 1 * values A ! 5 + values B ! 2 * values A ! 8,
      values B ! 3 * values A ! 0 + values B ! 4 * values A ! 3 + values B ! 5 * values A ! 6,
      values B ! 3 * values A ! 1 + values B ! 4 * values A ! 4 + values B ! 5 * values A ! 7,
      values B ! 3 * values A ! 2 + values B ! 4 * values A ! 5 + values B ! 5 * values A ! 8,
      values B ! 6 * values A ! 0 + values B ! 7 * values A ! 3 + values B ! 8 * values A ! 6,
      values B ! 6 * values A ! 1 + values B ! 7 * values A ! 4 + values B ! 8 * values A ! 7,
      values B ! 6 * values A ! 2 + values B ! 7 * values A ! 5 + values B ! 8 * values A ! 8]"
  by (simp add: multiply_def Let_def eval_nat_numeral)

lemma row_major_product_unfold:
  "row_major_product P Q =
     [P ! 0 * Q ! 0 + P ! 1 * Q ! 3 + P ! 2 * Q ! 6,
      P ! 0 * Q ! 1 + P ! 1 * Q ! 4 + P ! 2 * Q ! 7,
      P ! 0 * Q ! 2 + P ! 1 * Q ! 5 + P ! 2 * Q ! 8,
      P ! 3 * Q ! 0 + P ! 4 * Q ! 3 + P ! 5 * Q ! 6,
      P ! 3 * Q ! 1 + P ! 4 * Q ! 4 + P ! 5 * Q ! 7,
      P ! 3 * Q ! 2 + P ! 4 * Q ! 5 + P ! 5 * Q ! 8,
      P ! 6 * Q ! 0 + P ! 7 * Q ! 3 + P ! 8 * Q ! 6,
      P ! 6 * Q ! 1 + P ! 7 * Q ! 4 + P ! 8 * Q ! 7,
      P ! 6 * Q ! 2 + P ! 7 * Q ! 5 + P ! 8 * Q ! 8]"
proof -
  have upt3: "[0..<3] = [0, Suc 0, Suc (Suc 0)]"
    by (simp add: upt_rec)
  have sum3: "(\<Sum>k<3. f k) = f 0 + f (Suc 0) + f (Suc (Suc 0))" for f :: "nat \<Rightarrow> real"
    by (simp add: eval_nat_numeral lessThan_Suc)
  show ?thesis
    unfolding row_major_product_def row_major_entry_def upt3 sum3
    by (simp add: eval_nat_numeral)
qed

lemma multiply_row_major:
  "values (multiply A B) = row_major_product (values B) (values A)"
  by (simp only: values_multiply row_major_product_unfold)

lemma length_values_multiply: "length (values (multiply A B)) = 9"
  by (simp add: values_multiply)

lemma multiply_updates_this:
  "multiply A B = A\<lparr>values := row_major_product (values B) (values A)\<rparr>"
proof -
  have "multiply A B = A\<lparr>values := values (multiply A B)\<rparr>"
    by (simp add: multiply_def Let_def)
  then show ?thesis
    by (simp only: multiply_row_major)
qed

lemma affine_shape_multiply:
  assumes "affine_shape A" and "affine_shape B"
  shows "affine_shape (multiply A B)"
  using assms by (simp add: affine_shape_def values_multiply)

lemma affine_shape_translate: "affine_shape A \<Longrightarrow> affine_shape (translate A tx ty)"
  unfolding translate_def
  by (rule affine_shape_multiply) (simp_all add: affine_shape_def)

lemma affine_shape_rotate: "affine_shape A \<Longrightarrow> affine_shape (rotate_mat A radians)"
  unfolding rotate_mat_def Let_def
  by (rule affine_shape_multiply) (simp_all add: affine_shape_def)

lemma affine_shape_scale: "affine_shape A \<Longrightarrow> affine_shape (scale A sx sy)"
  unfolding scale_def
  by (rule affine_shape_multiply) (simp_all add: affine_shape_def)

lemma affine_shape_projection: "affine_shape (Matrix_projection w h)"
  by (simp add: Matrix_projection_def affine_shape_def)

lemma affine_shape_identity: "affine_shape \<lparr>values = Matrix_identity\<rparr>"
  by (simp add: Matrix_identity_def affine_shape_def)

lemma affine_shape_copy: "affine_shape A \<Longrightarrow> affine_shape (copy A)"
  by (simp add: copy_def affine_shape_def)

text \<open>
  What the product means for a vertex: the shader applies the incoming matrix first and the
  previous matrix of \<^verbatim>\<open>this\<close> to the result, so a chained call acts in the frame the
  calls before it have set up.
\<close>

lemma mat3_times_vec3_multiply:
  "mat3_times_vec3 (values (multiply A B)) v =
     mat3_times_vec3 (values A) (mat3_times_vec3 (values B) v)"
  by (cases v) (simp add: mat3_times_vec3_def values_multiply algebra_simps)

text \<open>
  C1. \<^verbatim>\<open>A.multiply(B)\<close> changes nothing of \<open>A\<close> but its array, which becomes the
  row-major array of the product \<open>B \<cdot> A\<close>, and returns \<open>A\<close>; \<^verbatim>\<open>translate\<close>,
  \<^verbatim>\<open>rotate\<close> and \<^verbatim>\<open>scale\<close> replace the array of \<^verbatim>\<open>this\<close> by \<open>E \<cdot> this\<close> for the
  elementary array \<open>E\<close> each of them builds, and a chain
  \<^verbatim>\<open>A.translate(tx,ty).rotate(r).scale(sx,sy)\<close> composes them in the order written:
  \<open>S \<cdot> (R \<cdot> (T \<cdot> A))\<close>.
\<close>

theorem multiply_post_multiplies:
  assumes "length (values A) = 9" and "length (values B) = 9"
  shows "multiply A B = A\<lparr>values := row_major_product (values B) (values A)\<rparr>
    \<and> length (values (multiply A B)) = 9
    \<and> values (translate A tx ty) = row_major_product [1, 0, 0, 0, 1, 0, tx, ty, 1] (values A)
    \<and> values (rotate_mat A r) =
        row_major_product [cos r, - sin r, 0, sin r, cos r, 0, 0, 0, 1] (values A)
    \<and> values (scale A sx sy) = row_major_product [sx, 0, 0, 0, sy, 0, 0, 0, 1] (values A)
    \<and> values (scale (rotate_mat (translate A tx ty) r) sx sy) =
        row_major_product [sx, 0, 0, 0, sy, 0, 0, 0, 1]
          (row_major_product [cos r, - sin r, 0, sin r, cos r, 0, 0, 0, 1]
            (row_major_product [1, 0, 0, 0, 1, 0, tx, ty, 1] (values A)))"
proof -
  have t: "values (translate M tx ty) = row_major_product [1, 0, 0, 0, 1, 0, tx, ty, 1] (values M)"
    for M
    by (simp add: translate_def multiply_row_major)
  have r: "values (rotate_mat M r) =
      row_major_product [cos r, - sin r, 0, sin r, cos r, 0, 0, 0, 1] (values M)" for M
    by (simp add: rotate_mat_def Let_def multiply_row_major)
  have s: "values (scale M sx sy) = row_major_product [sx, 0, 0, 0, sy, 0, 0, 0, 1] (values M)"
    for M
    by (simp add: scale_def multiply_row_major)
  have c: "values (scale (rotate_mat (translate A tx ty) r) sx sy) =
        row_major_product [sx, 0, 0, 0, sy, 0, 0, 0, 1]
          (row_major_product [cos r, - sin r, 0, sin r, cos r, 0, 0, 0, 1]
            (row_major_product [1, 0, 0, 0, 1, 0, tx, ty, 1] (values A)))"
    by (simp only: t r s)
  show ?thesis
    using multiply_updates_this [of A B] length_values_multiply [of A B]
      t [of A] r [of A] s [of A] c
    by (intro conjI)
qed

theorem multiply_post_multiplies_witness:
  "length (values \<lparr>values = [2, 0, 0, 0, 3, 0, 5, 7, 1]\<rparr>) = 9
    \<and> length (values \<lparr>values = [1, 0, 0, 0, 1, 0, 4, 6, 1]\<rparr>) = 9
    \<and> values (multiply \<lparr>values = [2, 0, 0, 0, 3, 0, 5, 7, 1]\<rparr>
          \<lparr>values = [1, 0, 0, 0, 1, 0, 4, 6, 1]\<rparr>) = [2, 0, 0, 0, 3, 0, 13, 25, 1]
    \<and> values (translate \<lparr>values = [2, 0, 0, 0, 3, 0, 5, 7, 1]\<rparr> 4 6)
        = [2, 0, 0, 0, 3, 0, 13, 25, 1]"
  using multiply_post_multiplies [of "\<lparr>values = [2, 0, 0, 0, 3, 0, 5, 7, 1]\<rparr>"
      "\<lparr>values = [1, 0, 0, 0, 1, 0, 4, 6, 1]\<rparr>" 4 6 0 1 1]
  by (simp add: row_major_product_unfold)

text \<open>
  C4. For a view of positive width and height, the vertex shader with the projection matrix
  sends the logical point \<open>(0, 0)\<close> to the clip-space corner \<open>(-1, 1)\<close> and \<open>(w, h)\<close>
  to the opposite corner \<open>(1, -1)\<close>; every point \<open>(x, y)\<close> goes to
  \<open>(2x/w - 1, 1 - 2y/h)\<close>, so the logical origin is the top-left corner and \<open>y\<close> grows
  downward.
\<close>

theorem projection_maps_corners:
  assumes "0 < w" and "0 < h"
  shows "gl_Position_xy (values (Matrix_projection w h)) (0, 0) = (- 1, 1)
    \<and> gl_Position_xy (values (Matrix_projection w h)) (w, h) = (1, - 1)
    \<and> (\<forall>px py. gl_Position_xy (values (Matrix_projection w h)) (px, py)
          = (2 * px / w - 1, 1 - 2 * py / h))"
  using assms
  by (simp add: gl_Position_xy_def mat3_times_vec3_def Matrix_projection_def)

theorem projection_maps_corners_witness:
  "(0::real) < 400 \<and> (0::real) < 240
    \<and> gl_Position_xy (values (Matrix_projection 400 240)) (0, 0) = (- 1, 1)
    \<and> gl_Position_xy (values (Matrix_projection 400 240)) (400, 240) = (1, - 1)
    \<and> gl_Position_xy (values (Matrix_projection 400 240)) (100, 60) = (- 1 / 2, 1 / 2)"
  using projection_maps_corners [of 400 240]
  by simp

text \<open>
  C6, as the specification states it, fails: read row by row, the last row of the stored
  array (indices 6, 7, 8) of a projection matrix is \<open>(-1, 1, 1)\<close>, not \<open>(0, 0, 1)\<close>.
\<close>

theorem bottom_row_counterexample:
  "reachable (Matrix_projection 400 240)
    \<and> [values (Matrix_projection 400 240) ! 6, values (Matrix_projection 400 240) ! 7,
        values (Matrix_projection 400 240) ! 8] = [- 1, 1, 1]
    \<and> [values (Matrix_projection 400 240) ! 6, values (Matrix_projection 400 240) ! 7,
        values (Matrix_projection 400 240) ! 8] \<noteq> [0, 0, 1]"
proof -
  have "reachable (Matrix_projection 400 240)"
    by (rule reach_projection) simp_all
  then show ?thesis
    by (simp add: Matrix_projection_def)
qed

text \<open>
  C6, amended. Every matrix reachable from the identity or a projection matrix by copy,
  translate, rotate, scale and multiply has 9 coefficients with \<open>(0, 0, 1)\<close> at the
  indices 2, 5 and 8: the last column of the array read row by row, which is the last row
  of the matrix as WebGL reads it (column by column).
\<close>

theorem reachable_affine_shape:
  assumes "reachable m"
  shows "length (values m) = 9 \<and> values m ! 2 = 0 \<and> values m ! 5 = 0 \<and> values m ! 8 = 1"
proof -
  have "affine_shape m"
    using assms
  proof (induction rule: reachable.induct)
    case reach_identity
    show ?case by (rule affine_shape_identity)
  next
    case (reach_projection w h)
    show ?case by (rule affine_shape_projection)
  next
    case (reach_copy m)
    then show ?case by (simp add: affine_shape_copy)
  next
    case (reach_translate m tx ty)
    then show ?case by (simp add: affine_shape_translate)
  next
    case (reach_rotate m radians)
    then show ?case by (simp add: affine_shape_rotate)
  next
    case (reach_scale m sx sy)
    then show ?case by (simp add: affine_shape_scale)
  next
    case (reach_multiply m m')
    then show ?case by (simp add: affine_shape_multiply)
  qed
  then show ?thesis
    by (simp add: affine_shape_def)
qed

theorem reachable_affine_shape_witness:
  "reachable (scale (translate (copy (Matrix_projection 400 240)) 140 80) 16 32)
    \<and> values (scale (translate (copy (Matrix_projection 400 240)) 140 80) 16 32)
        = [2 / 25, 0, 0, 0, - 4 / 15, 0, - 3 / 10, 1 / 3, 1]"
proof -
  have r: "reachable (scale (translate (copy (Matrix_projection 400 240)) 140 80) 16 32)"
    by (intro reach_scale reach_translate reach_copy reach_projection) simp_all
  have "values (scale (translate (copy (Matrix_projection 400 240)) 140 80) 16 32)
        = [2 / 25, 0, 0, 0, - 4 / 15, 0, - 3 / 10, 1 / 3, 1]"
    by (simp add: scale_def translate_def copy_def Matrix_projection_def values_multiply)
  with r reachable_affine_shape [OF r] show ?thesis
    by simp
qed

text \<open>
  C7. A matrix whose entries at the indices 2, 5 and 8 are \<open>(0, 0, 1)\<close> keeps them under
  translate, rotate, scale and multiply by a matrix of the same shape, and a projection
  matrix has the shape. For such a matrix the shader maps \<open>(x, y, 1)\<close> to
  \<open>(a\<^sub>0 x + a\<^sub>3 y + a\<^sub>6, a\<^sub>1 x + a\<^sub>4 y + a\<^sub>7, 1)\<close>: the translation components are the
  entries 6 and 7, where translate puts them.
\<close>

theorem affine_shape_preserved:
  assumes "affine_shape A" and "affine_shape B"
  shows "affine_shape (translate A tx ty) \<and> affine_shape (rotate_mat A r)
    \<and> affine_shape (scale A sx sy) \<and> affine_shape (multiply A B)
    \<and> affine_shape (Matrix_projection w h)
    \<and> mat3_times_vec3 (values A) (px, py, 1) =
        (values A ! 0 * px + values A ! 3 * py + values A ! 6,
         values A ! 1 * px + values A ! 4 * py + values A ! 7, 1)
    \<and> values (translate \<lparr>values = Matrix_identity\<rparr> tx ty) = [1, 0, 0, 0, 1, 0, tx, ty, 1]"
proof -
  have "mat3_times_vec3 (values A) (px, py, 1) =
        (values A ! 0 * px + values A ! 3 * py + values A ! 6,
         values A ! 1 * px + values A ! 4 * py + values A ! 7, 1)"
    using assms(1) by (simp add: mat3_times_vec3_def affine_shape_def)
  moreover have "values (translate \<lparr>values = Matrix_identity\<rparr> tx ty)
      = [1, 0, 0, 0, 1, 0, tx, ty, 1]"
    by (simp add: translate_def Matrix_identity_def values_multiply)
  ultimately show ?thesis
    using assms
    by (simp add: affine_shape_translate affine_shape_rotate affine_shape_scale
        affine_shape_multiply affine_shape_projection)
qed

theorem affine_shape_preserved_witness:
  "affine_shape \<lparr>values = [2, 0, 0, 0, 3, 0, 5, 7, 1]\<rparr>
    \<and> affine_shape \<lparr>values = [1, 0, 0, 0, 1, 0, 4, 6, 1]\<rparr>
    \<and> affine_shape (multiply \<lparr>values = [2, 0, 0, 0, 3, 0, 5, 7, 1]\<rparr>
          \<lparr>values = [1, 0, 0, 0, 1, 0, 4, 6, 1]\<rparr>)
    \<and> affine_shape (translate \<lparr>values = [2, 0, 0, 0, 3, 0, 5, 7, 1]\<rparr> 4 6)"
proof -
  have a: "affine_shape \<lparr>values = [2, 0, 0, 0, 3, 0, 5, 7, 1]\<rparr>"
    by (simp add: affine_shape_def)
  have b: "affine_shape \<lparr>values = [1, 0, 0, 0, 1, 0, 4, 6, 1]\<rparr>"
    by (simp add: affine_shape_def)
  show ?thesis
    using a b affine_shape_preserved [OF a b, of 4 6 0 1 1 400 240 0 0]
    by simp
qed

section \<open>Properties of the numbers and of the image index\<close>

lemma floor_js_rem:
  assumes "0 \<le> v" and "0 < k"
  shows "\<lfloor>js_rem v (real_of_int k)\<rfloor> = \<lfloor>v\<rfloor> mod k"
proof -
  have nn: "0 \<le> v / real_of_int k"
    using assms by simp
  have q: "\<lfloor>v / real_of_int k\<rfloor> = \<lfloor>v\<rfloor> div k"
    using assms by (simp add: floor_divide_real_eq_div)
  have "js_rem v (real_of_int k) = v - real_of_int (k * (\<lfloor>v\<rfloor> div k))"
    using nn q by (simp add: js_rem_def trunc_def)
  then have "\<lfloor>js_rem v (real_of_int k)\<rfloor> = \<lfloor>v\<rfloor> - k * (\<lfloor>v\<rfloor> div k)"
    by (simp only: floor_diff_of_int)
  then show ?thesis
    by (simp add: minus_mult_div_eq_mod)
qed

lemma js_rem_int_nonneg: "0 \<le> n \<Longrightarrow> 0 < k \<Longrightarrow> js_rem_int n k = n mod k"
  by (simp add: js_rem_int_def)

lemma images_at_mod:
  assumes "1 \<le> length (images sprite)"
  shows "images_at sprite (n mod int (length (images sprite)))
    = Some (images sprite ! nat (n mod int (length (images sprite))))"
proof -
  have "0 < int (length (images sprite))"
    using assms by (cases "images sprite") simp_all
  then show ?thesis
    by (simp add: images_at_def)
qed

lemma limit_image_nonneg:
  assumes "0 \<le> v" and "1 \<le> length (images sprite)"
  shows "limit_image sprite v = \<lfloor>v\<rfloor> mod int (length (images sprite))"
proof -
  have k: "0 < int (length (images sprite))"
    using assms by (cases "images sprite") simp_all
  have n: "0 \<le> \<lfloor>v\<rfloor>"
    using assms by simp
  show ?thesis
  proof (cases "\<lfloor>v\<rfloor> < int (length (images sprite))")
    case True
    with n show ?thesis
      by (simp add: limit_image_def Let_def Math_floor_def images_at_def)
  next
    case False
    with n k show ?thesis
      by (simp add: limit_image_def Let_def Math_floor_def images_at_def js_rem_int_nonneg)
  qed
qed

section \<open>Properties of the frame timer\<close>

lemma calls_emit: "calls (emit cs s) = calls s @ cs"
  by (simp add: emit_def)

lemma internalTimer_emit: "internalTimer (emit cs s) = internalTimer s"
  by (simp add: emit_def)

lemma internalTimer_use: "internalTimer (use r ps s) = internalTimer s"
  by (simp add: use_def Let_def emit_def)

lemma draw_calls_emit: "draw_calls (emit cs s) = draw_calls s @ filter is_draw_call cs"
  by (simp add: draw_calls_def emit_def)

lemma draw_calls_use: "draw_calls (use r ps s) = draw_calls s"
  by (simp add: use_def Let_def draw_calls_def emit_def)

lemma internalTimer_beginRender:
  "internalTimer (beginRender s) = (if internalTimer s + 1 > 4096 then 0 else internalTimer s + 1)"
  by (simp add: beginRender_def Let_def internalTimer_emit internalTimer_use)

lemma timer_after_frames:
  assumes "internalTimer s = 0"
  shows "internalTimer ((beginRender ^^ n) s) = int (n mod 4097)"
proof (induction n)
  case 0
  show ?case using assms by simp
next
  case (Suc n)
  define m where "m = n mod 4097"
  have m: "m < 4097"
    by (simp add: m_def)
  have "internalTimer ((beginRender ^^ Suc n) s) = (if int m + 1 > 4096 then 0 else int m + 1)"
    using Suc by (simp add: internalTimer_beginRender m_def)
  also have "\<dots> = int (if Suc m = 4097 then 0 else Suc m)"
    using m by auto
  also have "\<dots> = int (Suc n mod 4097)"
    by (simp add: mod_Suc m_def)
  finally show ?case .
qed

text \<open>
  C5. From a timer at 0 (where \<^verbatim>\<open>Shader.init\<close> puts it), the timer after \<open>n\<close> calls
  of beginRender is \<open>n mod 4097\<close>: every call adds one and puts the timer back to 0 when
  it has passed 4096. So the timer is always between 0 and 4096, it is never 4097, and the
  value that follows 4096 is 0.
\<close>

theorem frame_timer_wraps:
  assumes "internalTimer s = 0"
  shows "internalTimer ((beginRender ^^ n) s) = int (n mod 4097)
    \<and> 0 \<le> internalTimer ((beginRender ^^ n) s)
    \<and> internalTimer ((beginRender ^^ n) s) \<le> 4096
    \<and> internalTimer ((beginRender ^^ n) s) \<noteq> 4097
    \<and> internalTimer (beginRender ((beginRender ^^ n) s)) =
        (if internalTimer ((beginRender ^^ n) s) = 4096 then 0
         else internalTimer ((beginRender ^^ n) s) + 1)"
proof -
  have t: "internalTimer ((beginRender ^^ n) s) = int (n mod 4097)"
    by (rule timer_after_frames [OF assms])
  define m where "m = n mod 4097"
  have "m < 4097"
    by (simp add: m_def)
  then have b: "int m \<le> 4096"
    by linarith
  have t': "internalTimer ((beginRender ^^ n) s) = int m"
    by (simp add: t m_def)
  have "int (n mod 4097) = int m"
    by (simp add: m_def)
  then show ?thesis
    using b by (simp add: t' internalTimer_beginRender)
qed

theorem frame_timer_wraps_witness:
  "internalTimer demo_state = 0
    \<and> internalTimer ((beginRender ^^ 4096) demo_state) = 4096
    \<and> internalTimer ((beginRender ^^ 4097) demo_state) = 0"
proof -
  have z: "internalTimer demo_state = 0"
    by (simp add: demo_state_def)
  show ?thesis
    using z frame_timer_wraps [OF z, of 4096] frame_timer_wraps [OF z, of 4097]
    by simp
qed

section \<open>Properties of the responsive resizing\<close>

lemma displayWidth_emit: "displayWidth (emit cs s) = displayWidth s"
  by (simp add: emit_def)
lemma displayHeight_emit: "displayHeight (emit cs s) = displayHeight s"
  by (simp add: emit_def)
lemma viewWidth_emit: "viewWidth (emit cs s) = viewWidth s"
  by (simp add: emit_def)
lemma viewHeight_emit: "viewHeight (emit cs s) = viewHeight s"
  by (simp add: emit_def)

lemma sizes_use:
  "displayWidth (use r ps s) = displayWidth s" "displayHeight (use r ps s) = displayHeight s"
  "viewWidth (use r ps s) = viewWidth s" "viewHeight (use r ps s) = viewHeight s"
  by (simp_all add: use_def Let_def emit_def)

lemma sizes_setProjection:
  "viewWidth (setProjection vw vh dw dh s) = vw"
  "viewHeight (setProjection vw vh dw dh s) = vh"
  "displayWidth (setProjection vw vh dw dh s) = or_else dw vw"
  "displayHeight (setProjection vw vh dw dh s) = or_else dh vh"
  by (simp_all add: setProjection_def Let_def displayWidth_emit displayHeight_emit
      viewWidth_emit viewHeight_emit sizes_use)

lemma orientation_factor_ge_1: "1 \<le> orientation_factor lw lh aw ah pp"
proof -
  have "1 \<le> real_of_int \<lfloor>max r (1::real)\<rfloor>" for r
  proof -
    have "\<lfloor>1::real\<rfloor> \<le> \<lfloor>max r 1\<rfloor>"
      by (rule floor_mono) simp
    then show ?thesis by simp
  qed
  then show ?thesis
    by (simp add: orientation_factor_def Let_def)
qed

lemma resizeCanvas_scale:
  assumes "responsive s = ''scale''" and "maintainAspectRatio s"
  shows "resizeCanvas win s =
    setProjection (viewWidth s) (viewHeight s)
      (Some (viewWidth s * orientation_factor (viewWidth s) (viewHeight s)
               (innerWidth win) (innerHeight win) (scalePerfectly s)))
      (Some (viewHeight s * orientation_factor (viewWidth s) (viewHeight s)
               (innerWidth win) (innerHeight win) (scalePerfectly s))) s"
  using assms
  by (simp add: resizeCanvas_def orientation_factor_def Let_def Math_max_def Math_floor_def max_def)

text \<open>
  C8, amended. Under \<^verbatim>\<open>'scale'\<close> with the aspect ratio kept and a view of positive
  size, the new display size is the logical size times a factor that is the window width
  over the logical width when the window is taller than wide, and the window height over
  the logical height otherwise, raised to at least 1 and floored when
  \<^verbatim>\<open>scalePerfectly\<close> is set; the logical size does not change. The witness is the
  example of the specification: 400\<times>240 in 850\<times>500 gives the factor 2 and 800\<times>480.
\<close>

theorem scale_policy_display_size:
  assumes "responsive s = ''scale''" and "maintainAspectRatio s"
    and "0 < viewWidth s" and "0 < viewHeight s"
  shows "displayWidth (resizeCanvas win s) =
      viewWidth s * orientation_factor (viewWidth s) (viewHeight s)
        (innerWidth win) (innerHeight win) (scalePerfectly s)
    \<and> displayHeight (resizeCanvas win s) =
      viewHeight s * orientation_factor (viewWidth s) (viewHeight s)
        (innerWidth win) (innerHeight win) (scalePerfectly s)
    \<and> viewWidth (resizeCanvas win s) = viewWidth s
    \<and> viewHeight (resizeCanvas win s) = viewHeight s
    \<and> 1 \<le> orientation_factor (viewWidth s) (viewHeight s)
        (innerWidth win) (innerHeight win) (scalePerfectly s)"
proof -
  define f where "f = orientation_factor (viewWidth s) (viewHeight s)
        (innerWidth win) (innerHeight win) (scalePerfectly s)"
  have f: "1 \<le> f"
    by (simp add: f_def orientation_factor_ge_1)
  have w: "viewWidth s * f \<noteq> 0" and h: "viewHeight s * f \<noteq> 0"
    using f assms(3,4) by auto
  have r: "resizeCanvas win s =
      setProjection (viewWidth s) (viewHeight s) (Some (viewWidth s * f)) (Some (viewHeight s * f)) s"
    unfolding f_def by (rule resizeCanvas_scale [OF assms(1,2)])
  show ?thesis
    using w h f unfolding f_def [symmetric] r
    by (simp add: sizes_setProjection or_else_def)
qed

theorem scale_policy_display_size_witness:
  "responsive demo_state = ''scale'' \<and> maintainAspectRatio demo_state
    \<and> 0 < viewWidth demo_state \<and> 0 < viewHeight demo_state
    \<and> orientation_factor 400 240 850 500 True = 2
    \<and> displayWidth (resizeCanvas \<lparr>innerWidth = 850, innerHeight = 500\<rparr> demo_state) = 800
    \<and> displayHeight (resizeCanvas \<lparr>innerWidth = 850, innerHeight = 500\<rparr> demo_state) = 480"
proof -
  have a: "responsive demo_state = ''scale''" and b: "maintainAspectRatio demo_state"
    and c: "0 < viewWidth demo_state" and d: "0 < viewHeight demo_state"
    by (simp_all add: demo_state_def)
  have v: "viewWidth demo_state = 400" "viewHeight demo_state = 240" "scalePerfectly demo_state"
    by (simp_all add: demo_state_def)
  have f: "orientation_factor 400 240 850 500 True = 2"
    by (simp add: orientation_factor_def Let_def)
  show ?thesis
    using a b c d f
      scale_policy_display_size [OF a b c d, of "\<lparr>innerWidth = 850, innerHeight = 500\<rparr>"]
    by (simp add: v)
qed

text \<open>
  C8, as the specification states it, fails: the factor is not computed from the smaller of
  the two ratios. For the logical size 400\<times>240 in a window of 500\<times>480 with
  \<^verbatim>\<open>scalePerfectly\<close> set, the window is not taller than wide, so the code takes
  \<open>480 / 240 = 2\<close> and the display becomes 800\<times>480; the smaller ratio is
  \<open>500 / 400\<close>, which gives the factor 1 and 400\<times>240.
\<close>

theorem smaller_ratio_counterexample:
  "responsive demo_state = ''scale'' \<and> maintainAspectRatio demo_state
    \<and> scalePerfectly demo_state
    \<and> (viewWidth demo_state, viewHeight demo_state) = (400, 240)
    \<and> (displayWidth (resizeCanvas \<lparr>innerWidth = 500, innerHeight = 480\<rparr> demo_state),
        displayHeight (resizeCanvas \<lparr>innerWidth = 500, innerHeight = 480\<rparr> demo_state))
       = (800, 480)
    \<and> smaller_ratio_factor 400 240 500 480 True = 1
    \<and> (400 * smaller_ratio_factor 400 240 500 480 True,
        240 * smaller_ratio_factor 400 240 500 480 True) = (400, 240)"
proof -
  have a: "responsive demo_state = ''scale''" and b: "maintainAspectRatio demo_state"
    by (simp_all add: demo_state_def)
  have v: "viewWidth demo_state = 400" "viewHeight demo_state = 240" "scalePerfectly demo_state"
    by (simp_all add: demo_state_def)
  have f: "orientation_factor 400 240 500 480 True = 2"
    by (simp add: orientation_factor_def Let_def)
  have g: "smaller_ratio_factor 400 240 500 480 True = 1"
    by (simp add: smaller_ratio_factor_def Let_def)
  show ?thesis
    by (simp add: resizeCanvas_scale [OF a b] sizes_setProjection or_else_def v f g a b)
qed

section \<open>Properties of the primitive draws\<close>

lemma preparePrimitive_result:
  "preparePrimitive positions rcol g b a s =
    (if unparseable_color rcol g b
     then (Inl (DrawError rcol g b a), use PrimitiveShader positions s)
     else (Inr (), emit [gl_uniform4f (blendUniform (primitiveShader (use PrimitiveShader positions s)))
                (case rcol of ColorObject c \<Rightarrow> Number (red c) | _ \<Rightarrow> rcol)
                (case rcol of ColorObject c \<Rightarrow> Number (green c) | _ \<Rightarrow> g)
                (case rcol of ColorObject c \<Rightarrow> Number (blue c) | _ \<Rightarrow> b)
                (case rcol of ColorObject c \<Rightarrow> Number (alpha c)
                   | _ \<Rightarrow> if a = Undefined then Number 1 else a)]
             (use PrimitiveShader positions s)))"
  by (cases rcol) (simp_all add: preparePrimitive_def Let_def unparseable_color_def)

lemma preparePrimitive_fst:
  "fst (preparePrimitive positions rcol g b a s) =
    (if unparseable_color rcol g b then Inl (DrawError rcol g b a) else Inr ())"
  by (simp add: preparePrimitive_result)

lemma preparePrimitive_draw_calls:
  "draw_calls (snd (preparePrimitive positions rcol g b a s)) = draw_calls s"
  by (simp add: preparePrimitive_result draw_calls_emit draw_calls_use)

lemma primitive_draw_cases:
  "(case preparePrimitive positions rcol g b a s of
      (Inl e, s1) \<Rightarrow> (Inl e, s1)
    | (Inr u, s1) \<Rightarrow> (Inr (), emit [c] s1)) =
   (if unparseable_color rcol g b
    then (Inl (DrawError rcol g b a), use PrimitiveShader positions s)
    else (Inr (), emit [c] (snd (preparePrimitive positions rcol g b a s))))"
  by (simp add: preparePrimitive_result)

lemma drawLine_result:
  "drawLine x y x2 y2 rcol g b a s =
    (if unparseable_color rcol g b
     then (Inl (DrawError rcol g b a), use PrimitiveShader [x, y, x2, y2] s)
     else (Inr (), emit [gl_drawArrays LINES 0 2]
             (snd (preparePrimitive [x, y, x2, y2] rcol g b a s))))"
  by (simp only: drawLine_def Let_def primitive_draw_cases)

lemma drawRect_result:
  "drawRect x y x2 y2 rcol g b a s =
    (if unparseable_color rcol g b
     then (Inl (DrawError rcol g b a),
           use PrimitiveShader [x, y2, x, y, x2, y, x2, y, x2, y2, x, y2] s)
     else (Inr (), emit [gl_drawArrays TRIANGLES 0 6]
             (snd (preparePrimitive [x, y2, x, y, x2, y, x2, y, x2, y2, x, y2] rcol g b a s))))"
  by (simp only: drawRect_def Let_def primitive_draw_cases)

lemma drawCircle_result:
  "drawCircle x y radius segments rcol g b a s =
    (if unparseable_color rcol g b
     then (Inl (DrawError rcol g b a),
           use PrimitiveShader (circle_loop x y radius segments (segments + 1) 0 [x, y]) s)
     else (Inr (), emit [gl_drawArrays TRIANGLE_FAN 0 (real segments + 2)]
             (snd (preparePrimitive (circle_loop x y radius segments (segments + 1) 0 [x, y])
                rcol g b a s))))"
  by (simp only: drawCircle_def Let_def primitive_draw_cases)

lemma drawPrimitive_result:
  "drawPrimitive mode positions rcol g b a s =
    (if unparseable_color rcol g b
     then (Inl (DrawError rcol g b a), use PrimitiveShader positions s)
     else (Inr (), emit [gl_drawArrays mode 0 (real (length positions) / 2)]
             (snd (preparePrimitive positions rcol g b a s))))"
  by (simp only: drawPrimitive_def primitive_draw_cases)

text \<open>
  C9. Each of drawLine, drawRect, drawCircle and drawPrimitive ends in a DrawError exactly
  when the first colour argument is not a Color instance and the green or the blue
  component is undefined; it succeeds otherwise. In the error case no \<^verbatim>\<open>drawArrays\<close>
  call is issued (the draw calls logged are those logged before); in the other case exactly
  one is appended. As the statement holds from every state, a draw that follows a failed one
  is not affected by it.
\<close>

theorem primitive_draw_error:
  "(fst (drawLine x y x2 y2 rcol g b a s) = Inl (DrawError rcol g b a)) = unparseable_color rcol g b
   \<and> (fst (drawLine x y x2 y2 rcol g b a s) = Inr ()) = (\<not> unparseable_color rcol g b)
   \<and> draw_calls (snd (drawLine x y x2 y2 rcol g b a s)) =
       draw_calls s @ (if unparseable_color rcol g b then [] else [gl_drawArrays LINES 0 2])
   \<and> (fst (drawRect x y x2 y2 rcol g b a s) = Inl (DrawError rcol g b a)) = unparseable_color rcol g b
   \<and> (fst (drawRect x y x2 y2 rcol g b a s) = Inr ()) = (\<not> unparseable_color rcol g b)
   \<and> draw_calls (snd (drawRect x y x2 y2 rcol g b a s)) =
       draw_calls s @ (if unparseable_color rcol g b then [] else [gl_drawArrays TRIANGLES 0 6])
   \<and> (fst (drawCircle x y radius segments rcol g b a s) = Inl (DrawError rcol g b a))
       = unparseable_color rcol g b
   \<and> (fst (drawCircle x y radius segments rcol g b a s) = Inr ()) = (\<not> unparseable_color rcol g b)
   \<and> draw_calls (snd (drawCircle x y radius segments rcol g b a s)) =
       draw_calls s @ (if unparseable_color rcol g b then []
                       else [gl_drawArrays TRIANGLE_FAN 0 (real segments + 2)])
   \<and> (fst (drawPrimitive mode positions rcol g b a s) = Inl (DrawError rcol g b a))
       = unparseable_color rcol g b
   \<and> (fst (drawPrimitive mode positions rcol g b a s) = Inr ()) = (\<not> unparseable_color rcol g b)
   \<and> draw_calls (snd (drawPrimitive mode positions rcol g b a s)) =
       draw_calls s @ (if unparseable_color rcol g b then []
                       else [gl_drawArrays mode 0 (real (length positions) / 2)])"
  by (simp add: drawLine_result drawRect_result drawCircle_result drawPrimitive_result
      draw_calls_emit draw_calls_use preparePrimitive_draw_calls)

theorem primitive_draw_error_witness:
  "unparseable_color (Number 1) Undefined (Number 0)
   \<and> fst (drawLine 0 0 10 10 (Number 1) Undefined (Number 0) Undefined demo_state)
       = Inl (DrawError (Number 1) Undefined (Number 0) Undefined)
   \<and> draw_calls (snd (drawLine 0 0 10 10 (Number 1) Undefined (Number 0) Undefined demo_state)) = []
   \<and> \<not> unparseable_color (Number 1) (Number 0) (Number 0)
   \<and> draw_calls (snd (drawLine 0 0 10 10 (Number 1) (Number 0) (Number 0) Undefined demo_state))
       = [gl_drawArrays LINES 0 2]"
proof -
  have u: "unparseable_color (Number 1) Undefined (Number 0)"
    by (simp add: unparseable_color_def)
  have p: "\<not> unparseable_color (Number 1) (Number 0) (Number 0)"
    by (simp add: unparseable_color_def)
  have d: "draw_calls demo_state = []"
    by (simp add: draw_calls_def demo_state_def)
  show ?thesis
    using u p d
      primitive_draw_error [of 0 0 10 10 "Number 1" Undefined "Number 0" Undefined demo_state
        0 0 LINES "[]"]
      primitive_draw_error [of 0 0 10 10 "Number 1" "Number 0" "Number 0" Undefined demo_state
        0 0 LINES "[]"]
    by simp
qed

section \<open>Properties of the sprite draws\<close>

lemma floor_m1: "\<lfloor>- 1 :: real\<rfloor> = - 1"
  by (simp add: floor_eq_iff)

lemma drawSprite_fst:
  "fst (drawSprite sprite img x y transformFn rcol g b a s) =
     (case images_at sprite (limit_image sprite img) of None \<Rightarrow> Inl TypeError | Some i \<Rightarrow> Inr ())"
  by (simp add: drawSprite_def Let_def split: option.splits)

lemma drawSprite_draw_calls:
  "draw_calls (snd (drawSprite sprite img x y transformFn rcol g b a s)) =
     draw_calls s @ (case images_at sprite (limit_image sprite img) of
                       None \<Rightarrow> [] | Some i \<Rightarrow> [gl_drawArrays TRIANGLES 0 6])"
  by (cases rcol)
    (simp_all add: drawSprite_def Let_def draw_calls_emit draw_calls_use split: option.splits)

lemma drawSprite_texture_upload:
  assumes "images_at sprite (limit_image sprite img) = Some i"
  shows "gl_uniformMatrix3fv (textureMatrix (imageShader s)) (img_t i)
     \<in> set (calls (snd (drawSprite sprite img x y transformFn rcol g b a s)))"
  using assms
  by (cases rcol) (simp_all add: drawSprite_def Let_def calls_emit use_def emit_def)

lemma drawSprite_cong_image:
  assumes "limit_image sprite img = limit_image sprite img'"
  shows "drawSprite sprite img x y transformFn rcol g b a s =
         drawSprite sprite img' x y transformFn rcol g b a s"
  using assms by (simp add: drawSprite_def)

lemma limit_image_negative:
  assumes "1 \<le> length (images sprite)" and "\<lfloor>img\<rfloor> < 0"
  shows "limit_image sprite img = - ((- \<lfloor>img\<rfloor>) mod int (length (images sprite)))"
  using assms by (simp add: limit_image_def Let_def Math_floor_def images_at_def js_rem_int_def)

text \<open>
  C2. What drawSprite does with a negative image that is not a multiple of the number of
  images \<open>k \<ge> 1\<close>: \<^verbatim>\<open>sprite.images[image]\<close> is undefined, the remainder
  \<^verbatim>\<open>image %= k\<close> keeps the sign of \<^verbatim>\<open>image\<close>, so the index stays negative,
  \<^verbatim>\<open>sprite.images[image].t\<close> raises a TypeError and nothing is drawn. With 4 images the
  index \<open>-1\<close> does not select image 3. (For an image that is not negative,
  \<open>drawSprite_nonnegative_image\<close> below: the index is \<open>floor(image) mod k\<close>.)
\<close>

theorem drawSprite_negative_image:
  assumes "1 \<le> length (images sprite)" and "\<lfloor>img\<rfloor> < 0"
    and "\<not> int (length (images sprite)) dvd \<lfloor>img\<rfloor>"
  shows "limit_image sprite img = - ((- \<lfloor>img\<rfloor>) mod int (length (images sprite)))
    \<and> limit_image sprite img < 0
    \<and> images_at sprite (limit_image sprite img) = None
    \<and> fst (drawSprite sprite img x y transformFn rcol g b a s) = Inl TypeError
    \<and> draw_calls (snd (drawSprite sprite img x y transformFn rcol g b a s)) = draw_calls s"
proof -
  define k where "k = int (length (images sprite))"
  have k: "0 < k"
    using assms(1) unfolding k_def by (cases "images sprite") simp_all
  have l: "limit_image sprite img = - ((- \<lfloor>img\<rfloor>) mod k)"
    unfolding k_def by (rule limit_image_negative [OF assms(1,2)])
  have "\<not> k dvd - \<lfloor>img\<rfloor>"
    using assms(3) by (simp add: k_def)
  then have "(- \<lfloor>img\<rfloor>) mod k \<noteq> 0"
    by (simp add: dvd_eq_mod_eq_0)
  moreover have "0 \<le> (- \<lfloor>img\<rfloor>) mod k"
    using k by simp
  ultimately have neg: "limit_image sprite img < 0"
    using l by linarith
  then have none: "images_at sprite (limit_image sprite img) = None"
    by (simp add: images_at_def)
  show ?thesis
    using l neg none unfolding k_def
    by (simp add: drawSprite_fst drawSprite_draw_calls)
qed

theorem drawSprite_negative_image_witness:
  "1 \<le> length (images spr_mario) \<and> \<lfloor>- 1 :: real\<rfloor> < 0
    \<and> \<not> int (length (images spr_mario)) dvd \<lfloor>- 1 :: real\<rfloor>
    \<and> limit_image spr_mario (- 1) = - 1
    \<and> fst (drawSprite spr_mario (- 1) 140 80 None Undefined Undefined Undefined Undefined
             demo_state) = Inl TypeError"
proof -
  have a: "1 \<le> length (images spr_mario)"
    by (simp add: spr_mario_def)
  have b: "\<lfloor>- 1 :: real\<rfloor> < 0"
    by (simp add: floor_m1)
  have c: "\<not> int (length (images spr_mario)) dvd \<lfloor>- 1 :: real\<rfloor>"
    by (simp add: spr_mario_def floor_m1)
  have l: "length (images spr_mario) = 4"
    by (simp add: spr_mario_def)
  show ?thesis
    using a b c
      drawSprite_negative_image [OF a b c, of 140 80 None Undefined Undefined Undefined Undefined
        demo_state]
    by (simp add: floor_m1 l)
qed

lemma drawSprite_nonnegative_image:
  assumes "1 \<le> length (images sprite)" and "0 \<le> img"
  shows "limit_image sprite img = \<lfloor>img\<rfloor> mod int (length (images sprite))
    \<and> images_at sprite (limit_image sprite img) =
        Some (images sprite ! nat (\<lfloor>img\<rfloor> mod int (length (images sprite))))
    \<and> fst (drawSprite sprite img x y transformFn rcol g b a s) = Inr ()"
  using assms
  by (simp add: limit_image_nonneg images_at_mod drawSprite_fst)

lemma limit_image_js_rem:
  assumes "1 \<le> length (images sprite)" and "0 \<le> v"
  shows "limit_image sprite (js_rem v (real (length (images sprite)))) =
         \<lfloor>v\<rfloor> mod int (length (images sprite))"
proof -
  define k where "k = int (length (images sprite))"
  have k: "0 < k"
    using assms(1) unfolding k_def by (cases "images sprite") simp_all
  have rk: "real (length (images sprite)) = real_of_int k"
    by (simp add: k_def)
  have fl: "\<lfloor>js_rem v (real_of_int k)\<rfloor> = \<lfloor>v\<rfloor> mod k"
    by (rule floor_js_rem [OF assms(2) k])
  have "0 \<le> \<lfloor>v\<rfloor> mod k" and "\<lfloor>v\<rfloor> mod k < k"
    using k by simp_all
  then show ?thesis
    unfolding rk using fl
    by (simp add: limit_image_def Let_def Math_floor_def images_at_def k_def)
qed

lemma limit_image_of_mod:
  assumes "1 \<le> length (images sprite)"
  shows "limit_image sprite (real_of_int (n mod int (length (images sprite)))) =
         n mod int (length (images sprite))"
proof -
  have k: "0 < int (length (images sprite))"
    using assms by (cases "images sprite") simp_all
  then have "0 \<le> real_of_int (n mod int (length (images sprite)))"
    by simp
  then show ?thesis
    using assms by (simp add: limit_image_nonneg)
qed

lemma drawSpriteSpeed_branches:
  "drawSpriteSpeed sprite speed x y transformFn rcol g b a s =
    (if instanceof_Color rcol
     then drawSprite sprite
            (js_rem (real_of_int (internalTimer s) * speed) (real (length (images sprite))))
            x y transformFn rcol Undefined Undefined Undefined s
     else if truthy rcol \<and> truthy g \<and> truthy b
     then drawSprite sprite
            (js_rem (real_of_int (internalTimer s) * speed) (real (length (images sprite))))
            x y transformFn rcol g b a s
     else drawSprite sprite
            (js_rem (real_of_int (internalTimer s) * speed) (real (length (images sprite))))
            x y transformFn Undefined Undefined Undefined Undefined s)"
  by (cases transformFn) (simp_all add: drawSpriteSpeed_def)

text \<open>
  C3. For a sprite with \<open>k \<ge> 1\<close> images, a speed that is not negative and a timer \<open>t\<close>
  that is not negative, the image drawSpriteSpeed passes on selects the index
  \<open>floor(t * speed) mod k\<close>, which is the index drawSprite selects for the image
  \<open>floor(t * speed) mod k\<close>, and drawSpriteSpeed is that call of drawSprite (with the
  colour arguments of its branch). For the speed 0.2 and the 4 images of
  \<^verbatim>\<open>spr.mario\<close> the index is 0 at the timer values 0, 1, 2, 3 and 4 and then 1 at 5;
  the first five frames, whose beginRender has moved the timer from 0 to 1, ..., 5, show
  0, 0, 0, 0, 1.
\<close>

theorem drawSpriteSpeed_image:
  assumes "1 \<le> length (images sprite)" and "0 \<le> speed" and "0 \<le> internalTimer s"
  shows "limit_image sprite
           (js_rem (real_of_int (internalTimer s) * speed) (real (length (images sprite))))
         = \<lfloor>real_of_int (internalTimer s) * speed\<rfloor> mod int (length (images sprite))
    \<and> limit_image sprite
           (real_of_int (\<lfloor>real_of_int (internalTimer s) * speed\<rfloor> mod int (length (images sprite))))
         = \<lfloor>real_of_int (internalTimer s) * speed\<rfloor> mod int (length (images sprite))
    \<and> drawSpriteSpeed sprite speed x y transformFn rcol g b a s =
       (if instanceof_Color rcol
        then drawSprite sprite
          (real_of_int (\<lfloor>real_of_int (internalTimer s) * speed\<rfloor> mod int (length (images sprite))))
          x y transformFn rcol Undefined Undefined Undefined s
        else if truthy rcol \<and> truthy g \<and> truthy b
        then drawSprite sprite
          (real_of_int (\<lfloor>real_of_int (internalTimer s) * speed\<rfloor> mod int (length (images sprite))))
          x y transformFn rcol g b a s
        else drawSprite sprite
          (real_of_int (\<lfloor>real_of_int (internalTimer s) * speed\<rfloor> mod int (length (images sprite))))
          x y transformFn Undefined Undefined Undefined Undefined s)
    \<and> map (\<lambda>t. limit_image spr_mario (js_rem (real_of_int t * (1 / 5)) 4)) [0, 1, 2, 3, 4, 5]
        = [0, 0, 0, 0, 0, 1]
    \<and> map (\<lambda>n. limit_image spr_mario
               (js_rem (real_of_int (internalTimer ((beginRender ^^ n) (s\<lparr>internalTimer := 0\<rparr>)))
                  * (1 / 5)) 4)) [1, 2, 3, 4, 5]
        = [0, 0, 0, 0, 1]"
proof -
  define v where "v = real_of_int (internalTimer s) * speed"
  define k where "k = int (length (images sprite))"
  have v: "0 \<le> v"
    using assms(2,3) by (simp add: v_def)
  have a: "limit_image sprite (js_rem v (real (length (images sprite)))) = \<lfloor>v\<rfloor> mod k"
    unfolding k_def by (rule limit_image_js_rem [OF assms(1) v])
  have b: "limit_image sprite (real_of_int (\<lfloor>v\<rfloor> mod k)) = \<lfloor>v\<rfloor> mod k"
    unfolding k_def by (rule limit_image_of_mod [OF assms(1)])
  have same: "drawSprite sprite (js_rem v (real (length (images sprite)))) x y transformFn c1 c2 c3 c4 s
      = drawSprite sprite (real_of_int (\<lfloor>v\<rfloor> mod k)) x y transformFn c1 c2 c3 c4 s"
    for c1 c2 c3 c4
    by (rule drawSprite_cong_image) (simp only: a b)
  have ex: "map (\<lambda>t. limit_image spr_mario (js_rem (real_of_int t * (1 / 5)) 4)) [0, 1, 2, 3, 4, 5]
        = [0, 0, 0, 0, 0, 1]"
    by (simp add: limit_image_def Let_def Math_floor_def images_at_def js_rem_int_def
        spr_mario_def js_rem_def trunc_def)
  have t: "internalTimer ((beginRender ^^ n) (s\<lparr>internalTimer := 0\<rparr>)) = int (n mod 4097)" for n
    by (rule timer_after_frames) simp
  have fr: "map (\<lambda>n. limit_image spr_mario
               (js_rem (real_of_int (internalTimer ((beginRender ^^ n) (s\<lparr>internalTimer := 0\<rparr>)))
                  * (1 / 5)) 4)) [1, 2, 3, 4, 5]
        = [0, 0, 0, 0, 1]"
    unfolding t
    by (simp add: limit_image_def Let_def Math_floor_def images_at_def js_rem_int_def
        spr_mario_def js_rem_def trunc_def)
  have main: "limit_image sprite (js_rem v (real (length (images sprite)))) = \<lfloor>v\<rfloor> mod k
    \<and> limit_image sprite (real_of_int (\<lfloor>v\<rfloor> mod k)) = \<lfloor>v\<rfloor> mod k
    \<and> drawSpriteSpeed sprite speed x y transformFn rcol g b a s =
       (if instanceof_Color rcol
        then drawSprite sprite (real_of_int (\<lfloor>v\<rfloor> mod k))
          x y transformFn rcol Undefined Undefined Undefined s
        else if truthy rcol \<and> truthy g \<and> truthy b
        then drawSprite sprite (real_of_int (\<lfloor>v\<rfloor> mod k)) x y transformFn rcol g b a s
        else drawSprite sprite (real_of_int (\<lfloor>v\<rfloor> mod k))
          x y transformFn Undefined Undefined Undefined Undefined s)"
    using a b
    unfolding drawSpriteSpeed_branches v_def [symmetric] k_def [symmetric] same
    by simp
  show ?thesis
    using main ex fr unfolding v_def k_def
    by (intro conjI) simp_all
qed

theorem drawSpriteSpeed_image_witness:
  "1 \<le> length (images spr_mario) \<and> (0::real) \<le> 1 / 5
    \<and> 0 \<le> internalTimer (demo_state\<lparr>internalTimer := 5\<rparr>)
    \<and> limit_image spr_mario
         (js_rem (real_of_int (internalTimer (demo_state\<lparr>internalTimer := 5\<rparr>)) * (1 / 5))
            (real (length (images spr_mario)))) = 1"
proof -
  have a: "1 \<le> length (images spr_mario)"
    by (simp add: spr_mario_def)
  have b: "(0::real) \<le> 1 / 5"
    by simp
  have c: "0 \<le> internalTimer (demo_state\<lparr>internalTimer := 5\<rparr>)"
    by simp
  have l: "length (images spr_mario) = 4"
    by (simp add: spr_mario_def)
  show ?thesis
    using a b c drawSpriteSpeed_image [OF a b c]
    by (simp add: l)
qed

section \<open>Properties of the Shader constructor\<close>

lemma Shader_new_linked:
  assumes "compile gl VERTEX_SHADER (vertexSource opt) = Compiled v"
    and "compile gl FRAGMENT_SHADER (fragmentSource opt) = Compiled f"
    and "link gl v f = Linked prog"
  shows "Shader_new gl opt =
    (if getAttribLocation gl prog (name_positionAttribute (names opt)) = - 1
     then Inl (ShaderError (PositionAttributeNotFound (name_positionAttribute (names opt))))
     else case getUniformLocation gl prog (name_positionUniform (names opt)) of
       None \<Rightarrow> Inl (ShaderError (PositionUniformNotFound (name_positionUniform (names opt))))
     | Some posMatrix \<Rightarrow>
      (case getUniformLocation gl prog (name_blendUniform (names opt)) of
         None \<Rightarrow> Inl (ShaderError (BlendUniformNotFound (name_blendUniform (names opt))))
       | Some blend \<Rightarrow>
          if useTexture opt
          then
            if getAttribLocation gl prog (or_empty (name_textureAttribute (names opt))) = - 1
            then Inl (ShaderError (TextureAttributeNotFound (name_textureAttribute (names opt))))
            else
              (case getUniformLocation gl prog (or_empty (name_textureUniform (names opt))) of
                 None \<Rightarrow>
                   Inl (ShaderError (TextureUniformNotFound (name_textureUniform (names opt))))
               | Some texMatrix \<Rightarrow>
                   Shader_finish gl prog
                     (getAttribLocation gl prog (name_positionAttribute (names opt)))
                     posMatrix blend
                     (Some (getAttribLocation gl prog
                              (or_empty (name_textureAttribute (names opt)))))
                     (Some texMatrix))
          else Shader_finish gl prog
                 (getAttribLocation gl prog (name_positionAttribute (names opt)))
                 posMatrix blend None None))"
  using assms by (simp add: Shader_new_def Shader_createShader_def)

text \<open>
  C10. When both shaders compile and the program links, and the linked program lacks a name
  the options require (the position attribute, the position-matrix uniform, the blend
  uniform, and for a shader that uses a texture the texture attribute and the
  texture-matrix uniform), the constructor ends in a ShaderError that names the missing
  attribute or uniform, and it yields no Shader instance.
\<close>

theorem Shader_new_missing_name:
  assumes "compile gl VERTEX_SHADER (vertexSource opt) = Compiled v"
    and "compile gl FRAGMENT_SHADER (fragmentSource opt) = Compiled f"
    and "link gl v f = Linked prog"
    and "lacks_required_name gl prog opt"
  shows "(\<exists>why. Shader_new gl opt = Inl (ShaderError why) \<and> missing_name_failure why)
    \<and> (\<forall>sh. Shader_new gl opt \<noteq> Inr sh)"
proof -
  have "\<exists>why. Shader_new gl opt = Inl (ShaderError why) \<and> missing_name_failure why"
    using assms(4)
    unfolding Shader_new_linked [OF assms(1,2,3)] lacks_required_name_def
    by (auto split: option.splits)
  then show ?thesis
    by auto
qed

lemma Shader_new_complete:
  assumes "compile gl VERTEX_SHADER (vertexSource opt) = Compiled v"
    and "compile gl FRAGMENT_SHADER (fragmentSource opt) = Compiled f"
    and "link gl v f = Linked prog"
    and "\<not> lacks_required_name gl prog opt"
    and "createBuffer gl = Some buf"
  shows "\<exists>sh. Shader_new gl opt = Inr sh \<and> program sh = prog \<and> buffer sh = buf
    \<and> positionAttribute sh = getAttribLocation gl prog (name_positionAttribute (names opt))
    \<and> getUniformLocation gl prog (name_positionUniform (names opt)) = Some (positionMatrix sh)
    \<and> getUniformLocation gl prog (name_blendUniform (names opt)) = Some (blendUniform sh)"
  using assms(4,5)
  unfolding Shader_new_linked [OF assms(1,2,3)] lacks_required_name_def
  by (auto simp add: Shader_finish_def split: option.splits)

lemma Shader_new_Inr_has_names:
  assumes "Shader_new gl opt = Inr sh"
  shows "\<not> lacks_required_name gl (program sh) opt"
  using assms
  by (auto simp add: Shader_new_def Shader_createShader_def Shader_finish_def
      lacks_required_name_def
      split: sum.splits compile_outcome.splits link_outcome.splits option.splits if_splits)

theorem Shader_new_missing_name_witness:
  "compile demo_gl VERTEX_SHADER (vertexSource (demo_primitive_options\<lparr>useTexture := True\<rparr>))
      = Compiled 1
    \<and> compile demo_gl FRAGMENT_SHADER (fragmentSource (demo_primitive_options\<lparr>useTexture := True\<rparr>))
      = Compiled 2
    \<and> link demo_gl 1 2 = Linked 3
    \<and> lacks_required_name demo_gl 3 (demo_primitive_options\<lparr>useTexture := True\<rparr>)
    \<and> Shader_new demo_gl (demo_primitive_options\<lparr>useTexture := True\<rparr>)
        = Inl (ShaderError (TextureAttributeNotFound (Some ''a_texcoord'')))"
proof -
  have a: "compile demo_gl VERTEX_SHADER
      (vertexSource (demo_primitive_options\<lparr>useTexture := True\<rparr>)) = Compiled 1"
    by (simp add: demo_gl_def)
  have b: "compile demo_gl FRAGMENT_SHADER
      (fragmentSource (demo_primitive_options\<lparr>useTexture := True\<rparr>)) = Compiled 2"
    by (simp add: demo_gl_def)
  have c: "link demo_gl 1 2 = Linked 3"
    by (simp add: demo_gl_def)
  have d: "lacks_required_name demo_gl 3 (demo_primitive_options\<lparr>useTexture := True\<rparr>)"
    by (simp add: lacks_required_name_def demo_gl_def demo_primitive_options_def or_empty_def)
  have e: "Shader_new demo_gl (demo_primitive_options\<lparr>useTexture := True\<rparr>)
        = Inl (ShaderError (TextureAttributeNotFound (Some ''a_texcoord'')))"
    by (simp add: Shader_new_linked [OF a b c])
      (simp add: demo_gl_def demo_primitive_options_def or_empty_def)
  show ?thesis
    using a b c d e Shader_new_missing_name [OF a b c d]
    by simp
qed

lemma demo_primitive_shader_constructed:
  "Shader_new demo_gl demo_primitive_options =
     Inr \<lparr>program = 3, positionAttribute = 0, positionMatrix = 1, blendUniform = 2,
          textureAttribute = None, textureMatrix = None, buffer = 1\<rparr>"
  by (simp add: Shader_new_def Shader_createShader_def Shader_finish_def demo_gl_def
      demo_primitive_options_def)

end
